theory Spec2Isabelle
  imports Main "HOL-Library.Sublist"
begin

section \<open>The scalar compute facade of Arrow\<close>

text \<open>
  The file under verification, \<open>arrow/compute/api_scalar.cc\<close>, is a thin layer of
  typed entry points over the function registry: each entry point resolves a registry
  name, sometimes validates its arguments, and forwards to \<open>CallFunction\<close>. The types it consumes (\<open>DataType\<close>, \<open>Datum\<close>,
  \<open>Status\<close>, the options structs) and \<open>CallFunction\<close> itself are declared in headers
  outside the file; they are modelled below as far as the file observes them.
\<close>

subsection \<open>Logical types\<close>

text \<open>
  Modelled from the spec: the logical types of arrow/type.h. A logical type supports
  equality comparison and printing; a Dictionary type additionally exposes the type of its
  decoded values. The model has a selection of the primitive types, a nested list type and
  the dictionary type with its index type, value type and ordered flag.
\<close>

datatype TypeId =
  NA | BOOL | UINT8 | INT8 | UINT16 | INT16 | UINT32 | INT32 | UINT64 | INT64
  | FLOAT | DOUBLE | STRING | BINARY | LIST | DICTIONARY

datatype DataType =
  NullType | BooleanType
  | UInt8Type | Int8Type | UInt16Type | Int16Type
  | UInt32Type | Int32Type | UInt64Type | Int64Type
  | FloatType | DoubleType | StringType | BinaryType
  | ListType DataType
  | DictionaryType (index_type: DataType) (value_type: DataType) (ordered: bool)

text \<open>\<open>DataType::id()\<close>; the name \<open>id\<close> is HOL's identity function.\<close>

fun type_id :: "DataType \<Rightarrow> TypeId" where
  "type_id NullType = NA"
| "type_id BooleanType = BOOL"
| "type_id UInt8Type = UINT8"
| "type_id Int8Type = INT8"
| "type_id UInt16Type = UINT16"
| "type_id Int16Type = INT16"
| "type_id UInt32Type = UINT32"
| "type_id Int32Type = INT32"
| "type_id UInt64Type = UINT64"
| "type_id Int64Type = INT64"
| "type_id FloatType = FLOAT"
| "type_id DoubleType = DOUBLE"
| "type_id StringType = STRING"
| "type_id BinaryType = BINARY"
| "type_id (ListType t) = LIST"
| "type_id (DictionaryType i v ord) = DICTIONARY"

text \<open>\<open>DataType::ToString()\<close>: the printed name of a type.\<close>

fun ToString :: "DataType \<Rightarrow> string" where
  "ToString NullType = ''null''"
| "ToString BooleanType = ''bool''"
| "ToString UInt8Type = ''uint8''"
| "ToString Int8Type = ''int8''"
| "ToString UInt16Type = ''uint16''"
| "ToString Int16Type = ''int16''"
| "ToString UInt32Type = ''uint32''"
| "ToString Int32Type = ''int32''"
| "ToString UInt64Type = ''uint64''"
| "ToString Int64Type = ''int64''"
| "ToString FloatType = ''float''"
| "ToString DoubleType = ''double''"
| "ToString StringType = ''string''"
| "ToString BinaryType = ''binary''"
| "ToString (ListType t) = ''list<item: '' @ ToString t @ ''>''"
| "ToString (DictionaryType i v ord) =
     ''dictionary<values='' @ ToString v @ '', indices='' @ ToString i
       @ '', ordered='' @ (if ord then ''1'' else ''0'') @ ''>''"

text \<open>\<open>DataType::Equals\<close>: structural equality of logical types.\<close>

definition Equals :: "DataType \<Rightarrow> DataType \<Rightarrow> bool" where
  "Equals a b = (a = b)"

subsection \<open>Value containers\<close>

text \<open>
  Modelled from the spec: \<open>Datum\<close> of arrow/datum.h, a variant over Scalar, Array,
  ChunkedArray and Table carrying a logical type. The facade reads three things of a
  Datum: its \<open>type()\<close>, whether it \<open>is_arraylike()\<close> (true for Array and ChunkedArray)
  and its \<open>length()\<close>, a signed 64-bit count that is only compared with zero here.
\<close>

datatype DatumKind = SCALAR | ARRAY | CHUNKED_ARRAY | TABLE

record Datum =
  kind :: DatumKind
  type :: DataType
  length_datum :: int

definition is_arraylike :: "Datum \<Rightarrow> bool" where
  "is_arraylike d = (kind d = ARRAY \<or> kind d = CHUNKED_ARRAY)"

subsection \<open>Options records\<close>

text \<open>
  Modelled from the spec: the options structs of \<open>arrow/compute/api_scalar.h\<close>, each a
  \<open>FunctionOptions\<close>. \<open>CompareOperator\<close> is the closed enumeration of six operators.
\<close>

record ArithmeticOptions =
  check_overflow :: bool

record ElementWiseAggregateOptions =
  skip_nulls :: bool

record SetLookupOptions =
  value_set :: Datum
  skip_nulls_lookup :: bool

datatype CompareOperator = EQUAL | NOT_EQUAL | GREATER | GREATER_EQUAL | LESS | LESS_EQUAL

record CompareOptions =
  op :: CompareOperator

datatype FunctionOptions =
  OfArithmetic ArithmeticOptions
  | OfElementWiseAggregate ElementWiseAggregateOptions
  | OfSetLookup SetLookupOptions
  | OfCompare CompareOptions

text \<open>
  Modelled from the spec: the brace construction \<open>SetLookupOptions{value_set}\<close> used by
  the two-argument overloads, which leaves the remaining field at its default.
\<close>

definition SetLookupOptions_of :: "Datum \<Rightarrow> SetLookupOptions" where
  "SetLookupOptions_of vs = \<lparr>value_set = vs, skip_nulls_lookup = False\<rparr>"

subsection \<open>Results and the registry\<close>

text \<open>
  Modelled from the spec: \<open>Status\<close> of arrow/status.h with the three failures of the
  error taxonomy. \<open>Invalid\<close> is the code of \<open>Status::Invalid\<close>, which the spec calls
  InvalidArgument; \<open>NotFound\<close> and \<open>ExecutionError\<close> are what the registry may answer.
\<close>

datatype StatusCode = Invalid | NotFound | ExecutionError

datatype Status = Status (code: StatusCode) (message: string)

text \<open>
  \<open>Result<Datum>\<close> is a sum with the failure on the left. An entry point has one effect
  beyond its result: the invocations of the registry it makes. A run is therefore a pair of
  the result and the list of those invocations, in order.
\<close>

type_synonym 'c Call = "string \<times> Datum list \<times> FunctionOptions option \<times> 'c"

type_synonym 'c Registry = "'c Call \<Rightarrow> Status + Datum"

type_synonym 'c Run = "(Status + Datum) \<times> 'c Call list"

text \<open>
  Modelled from the spec: \<open>CallFunction\<close> of arrow/compute/exec.h. The registry is a
  black box taken as the parameter \<open>reg\<close>: what it answers for a name, an argument list,
  an optional options record and the execution context \<open>ctx\<close>. The three-argument
  overload of the source passes no options.
\<close>

definition CallFunction ::
  "'c Registry \<Rightarrow> string \<Rightarrow> Datum list \<Rightarrow> FunctionOptions option \<Rightarrow> 'c \<Rightarrow> 'c Run" where
  "CallFunction reg name args options ctx =
     (reg (name, args, options, ctx), [(name, args, options, ctx)])"

text \<open>The registry names a run has invoked.\<close>

definition called_names :: "'c Run \<Rightarrow> string list" where
  "called_names r = map fst (snd r)"

subsection \<open>Eager wrappers\<close>

definition SCALAR_EAGER_UNARY :: "string \<Rightarrow> 'c Registry \<Rightarrow> Datum \<Rightarrow> 'c \<Rightarrow> 'c Run" where
  "SCALAR_EAGER_UNARY REGISTRY_NAME reg v ctx = CallFunction reg REGISTRY_NAME [v] None ctx"

definition SCALAR_EAGER_BINARY ::
  "string \<Rightarrow> 'c Registry \<Rightarrow> Datum \<Rightarrow> Datum \<Rightarrow> 'c \<Rightarrow> 'c Run" where
  "SCALAR_EAGER_BINARY REGISTRY_NAME reg left right ctx =
     CallFunction reg REGISTRY_NAME [left, right] None ctx"

subsection \<open>Arithmetic\<close>

definition SCALAR_ARITHMETIC_UNARY ::
  "string \<Rightarrow> string \<Rightarrow> 'c Registry \<Rightarrow> Datum \<Rightarrow> ArithmeticOptions \<Rightarrow> 'c \<Rightarrow> 'c Run" where
  "SCALAR_ARITHMETIC_UNARY REGISTRY_NAME REGISTRY_CHECKED_NAME reg arg options ctx =
     (let func_name = (if check_overflow options then REGISTRY_CHECKED_NAME else REGISTRY_NAME)
      in CallFunction reg func_name [arg] None ctx)"

definition AbsoluteValue :: "'c Registry \<Rightarrow> Datum \<Rightarrow> ArithmeticOptions \<Rightarrow> 'c \<Rightarrow> 'c Run" where
  "AbsoluteValue = SCALAR_ARITHMETIC_UNARY ''abs'' ''abs_checked''"

definition Negate :: "'c Registry \<Rightarrow> Datum \<Rightarrow> ArithmeticOptions \<Rightarrow> 'c \<Rightarrow> 'c Run" where
  "Negate = SCALAR_ARITHMETIC_UNARY ''negate'' ''negate_checked''"

definition SCALAR_ARITHMETIC_BINARY ::
  "string \<Rightarrow> string \<Rightarrow> 'c Registry \<Rightarrow> Datum \<Rightarrow> Datum \<Rightarrow> ArithmeticOptions \<Rightarrow> 'c \<Rightarrow> 'c Run" where
  "SCALAR_ARITHMETIC_BINARY REGISTRY_NAME REGISTRY_CHECKED_NAME reg left right options ctx =
     (let func_name = (if check_overflow options then REGISTRY_CHECKED_NAME else REGISTRY_NAME)
      in CallFunction reg func_name [left, right] None ctx)"

definition Add :: "'c Registry \<Rightarrow> Datum \<Rightarrow> Datum \<Rightarrow> ArithmeticOptions \<Rightarrow> 'c \<Rightarrow> 'c Run" where
  "Add = SCALAR_ARITHMETIC_BINARY ''add'' ''add_checked''"

definition Subtract :: "'c Registry \<Rightarrow> Datum \<Rightarrow> Datum \<Rightarrow> ArithmeticOptions \<Rightarrow> 'c \<Rightarrow> 'c Run" where
  "Subtract = SCALAR_ARITHMETIC_BINARY ''subtract'' ''subtract_checked''"

definition Multiply :: "'c Registry \<Rightarrow> Datum \<Rightarrow> Datum \<Rightarrow> ArithmeticOptions \<Rightarrow> 'c \<Rightarrow> 'c Run" where
  "Multiply = SCALAR_ARITHMETIC_BINARY ''multiply'' ''multiply_checked''"

definition Divide :: "'c Registry \<Rightarrow> Datum \<Rightarrow> Datum \<Rightarrow> ArithmeticOptions \<Rightarrow> 'c \<Rightarrow> 'c Run" where
  "Divide = SCALAR_ARITHMETIC_BINARY ''divide'' ''divide_checked''"

definition Power :: "'c Registry \<Rightarrow> Datum \<Rightarrow> Datum \<Rightarrow> ArithmeticOptions \<Rightarrow> 'c \<Rightarrow> 'c Run" where
  "Power = SCALAR_ARITHMETIC_BINARY ''power'' ''power_checked''"

definition ElementWiseMax ::
  "'c Registry \<Rightarrow> Datum list \<Rightarrow> ElementWiseAggregateOptions \<Rightarrow> 'c \<Rightarrow> 'c Run" where
  "ElementWiseMax reg args options ctx =
     CallFunction reg ''element_wise_max'' args (Some (OfElementWiseAggregate options)) ctx"

definition ElementWiseMin ::
  "'c Registry \<Rightarrow> Datum list \<Rightarrow> ElementWiseAggregateOptions \<Rightarrow> 'c \<Rightarrow> 'c Run" where
  "ElementWiseMin reg args options ctx =
     CallFunction reg ''element_wise_min'' args (Some (OfElementWiseAggregate options)) ctx"

subsection \<open>Set-related operations\<close>

definition ExecSetLookup ::
  "'c Registry \<Rightarrow> string \<Rightarrow> Datum \<Rightarrow> SetLookupOptions \<Rightarrow> 'c \<Rightarrow> 'c Run" where
  "ExecSetLookup reg func_name data options ctx =
     (if \<not> is_arraylike (value_set options) then
        (Inl (Status Invalid ''Set lookup value set must be Array or ChunkedArray''), [])
      else
        let data_type =
              (if type_id (type data) = DICTIONARY then value_type (type data) else type data)
        in
          if length_datum (value_set options) > 0
             \<and> \<not> Equals data_type (type (value_set options))
          then
            (Inl (Status Invalid
                   (''Array type didn't match type of values set: '' @ ToString data_type
                      @ '' vs '' @ ToString (type (value_set options)))), [])
          else CallFunction reg func_name [data] (Some (OfSetLookup options)) ctx)"

definition IsIn :: "'c Registry \<Rightarrow> Datum \<Rightarrow> SetLookupOptions \<Rightarrow> 'c \<Rightarrow> 'c Run" where
  "IsIn reg values options ctx = ExecSetLookup reg ''is_in'' values options ctx"

text \<open>The overload of \<open>IsIn\<close> that takes the value set itself.\<close>

definition IsIn_value_set :: "'c Registry \<Rightarrow> Datum \<Rightarrow> Datum \<Rightarrow> 'c \<Rightarrow> 'c Run" where
  "IsIn_value_set reg values vs ctx =
     ExecSetLookup reg ''is_in'' values (SetLookupOptions_of vs) ctx"

definition IndexIn :: "'c Registry \<Rightarrow> Datum \<Rightarrow> SetLookupOptions \<Rightarrow> 'c \<Rightarrow> 'c Run" where
  "IndexIn reg values options ctx = ExecSetLookup reg ''index_in'' values options ctx"

text \<open>The overload of \<open>IndexIn\<close> that takes the value set itself.\<close>

definition IndexIn_value_set :: "'c Registry \<Rightarrow> Datum \<Rightarrow> Datum \<Rightarrow> 'c \<Rightarrow> 'c Run" where
  "IndexIn_value_set reg values vs ctx =
     ExecSetLookup reg ''index_in'' values (SetLookupOptions_of vs) ctx"

subsection \<open>Boolean functions\<close>

definition Invert :: "'c Registry \<Rightarrow> Datum \<Rightarrow> 'c \<Rightarrow> 'c Run" where
  "Invert = SCALAR_EAGER_UNARY ''invert''"

definition And :: "'c Registry \<Rightarrow> Datum \<Rightarrow> Datum \<Rightarrow> 'c \<Rightarrow> 'c Run" where
  "And = SCALAR_EAGER_BINARY ''and''"

definition KleeneAnd :: "'c Registry \<Rightarrow> Datum \<Rightarrow> Datum \<Rightarrow> 'c \<Rightarrow> 'c Run" where
  "KleeneAnd = SCALAR_EAGER_BINARY ''and_kleene''"

definition Or :: "'c Registry \<Rightarrow> Datum \<Rightarrow> Datum \<Rightarrow> 'c \<Rightarrow> 'c Run" where
  "Or = SCALAR_EAGER_BINARY ''or''"

definition KleeneOr :: "'c Registry \<Rightarrow> Datum \<Rightarrow> Datum \<Rightarrow> 'c \<Rightarrow> 'c Run" where
  "KleeneOr = SCALAR_EAGER_BINARY ''or_kleene''"

definition Xor :: "'c Registry \<Rightarrow> Datum \<Rightarrow> Datum \<Rightarrow> 'c \<Rightarrow> 'c Run" where
  "Xor = SCALAR_EAGER_BINARY ''xor''"

definition AndNot :: "'c Registry \<Rightarrow> Datum \<Rightarrow> Datum \<Rightarrow> 'c \<Rightarrow> 'c Run" where
  "AndNot = SCALAR_EAGER_BINARY ''and_not''"

definition KleeneAndNot :: "'c Registry \<Rightarrow> Datum \<Rightarrow> Datum \<Rightarrow> 'c \<Rightarrow> 'c Run" where
  "KleeneAndNot = SCALAR_EAGER_BINARY ''and_not_kleene''"

subsection \<open>Comparison\<close>

definition Compare :: "'c Registry \<Rightarrow> Datum \<Rightarrow> Datum \<Rightarrow> CompareOptions \<Rightarrow> 'c \<Rightarrow> 'c Run" where
  "Compare reg left right options ctx =
     (let func_name =
            (case op options of
               EQUAL \<Rightarrow> ''equal''
             | NOT_EQUAL \<Rightarrow> ''not_equal''
             | GREATER \<Rightarrow> ''greater''
             | GREATER_EQUAL \<Rightarrow> ''greater_equal''
             | LESS \<Rightarrow> ''less''
             | LESS_EQUAL \<Rightarrow> ''less_equal'')
      in CallFunction reg func_name [left, right] (Some (OfCompare options)) ctx)"

subsection \<open>Validity functions\<close>

definition IsValid :: "'c Registry \<Rightarrow> Datum \<Rightarrow> 'c \<Rightarrow> 'c Run" where
  "IsValid = SCALAR_EAGER_UNARY ''is_valid''"

definition IsNull :: "'c Registry \<Rightarrow> Datum \<Rightarrow> 'c \<Rightarrow> 'c Run" where
  "IsNull = SCALAR_EAGER_UNARY ''is_null''"

definition IsNan :: "'c Registry \<Rightarrow> Datum \<Rightarrow> 'c \<Rightarrow> 'c Run" where
  "IsNan = SCALAR_EAGER_UNARY ''is_nan''"

definition FillNull :: "'c Registry \<Rightarrow> Datum \<Rightarrow> Datum \<Rightarrow> 'c \<Rightarrow> 'c Run" where
  "FillNull reg values fill_value ctx =
     CallFunction reg ''fill_null'' [values, fill_value] None ctx"

definition IfElse :: "'c Registry \<Rightarrow> Datum \<Rightarrow> Datum \<Rightarrow> Datum \<Rightarrow> 'c \<Rightarrow> 'c Run" where
  "IfElse reg cond if_true if_false ctx =
     CallFunction reg ''if_else'' [cond, if_true, if_false] None ctx"

subsection \<open>Temporal functions\<close>

definition Year :: "'c Registry \<Rightarrow> Datum \<Rightarrow> 'c \<Rightarrow> 'c Run" where
  "Year = SCALAR_EAGER_UNARY ''year''"

definition Month :: "'c Registry \<Rightarrow> Datum \<Rightarrow> 'c \<Rightarrow> 'c Run" where
  "Month = SCALAR_EAGER_UNARY ''month''"

definition Day :: "'c Registry \<Rightarrow> Datum \<Rightarrow> 'c \<Rightarrow> 'c Run" where
  "Day = SCALAR_EAGER_UNARY ''day''"

definition DayOfWeek :: "'c Registry \<Rightarrow> Datum \<Rightarrow> 'c \<Rightarrow> 'c Run" where
  "DayOfWeek = SCALAR_EAGER_UNARY ''day_of_week''"

definition DayOfYear :: "'c Registry \<Rightarrow> Datum \<Rightarrow> 'c \<Rightarrow> 'c Run" where
  "DayOfYear = SCALAR_EAGER_UNARY ''day_of_year''"

definition ISOYear :: "'c Registry \<Rightarrow> Datum \<Rightarrow> 'c \<Rightarrow> 'c Run" where
  "ISOYear = SCALAR_EAGER_UNARY ''iso_year''"

definition ISOWeek :: "'c Registry \<Rightarrow> Datum \<Rightarrow> 'c \<Rightarrow> 'c Run" where
  "ISOWeek = SCALAR_EAGER_UNARY ''iso_week''"

definition ISOCalendar :: "'c Registry \<Rightarrow> Datum \<Rightarrow> 'c \<Rightarrow> 'c Run" where
  "ISOCalendar = SCALAR_EAGER_UNARY ''iso_calendar''"

definition Quarter :: "'c Registry \<Rightarrow> Datum \<Rightarrow> 'c \<Rightarrow> 'c Run" where
  "Quarter = SCALAR_EAGER_UNARY ''quarter''"

definition Hour :: "'c Registry \<Rightarrow> Datum \<Rightarrow> 'c \<Rightarrow> 'c Run" where
  "Hour = SCALAR_EAGER_UNARY ''hour''"

definition Minute :: "'c Registry \<Rightarrow> Datum \<Rightarrow> 'c \<Rightarrow> 'c Run" where
  "Minute = SCALAR_EAGER_UNARY ''minute''"

definition Second :: "'c Registry \<Rightarrow> Datum \<Rightarrow> 'c \<Rightarrow> 'c Run" where
  "Second = SCALAR_EAGER_UNARY ''second''"

definition Millisecond :: "'c Registry \<Rightarrow> Datum \<Rightarrow> 'c \<Rightarrow> 'c Run" where
  "Millisecond = SCALAR_EAGER_UNARY ''millisecond''"

definition Microsecond :: "'c Registry \<Rightarrow> Datum \<Rightarrow> 'c \<Rightarrow> 'c Run" where
  "Microsecond = SCALAR_EAGER_UNARY ''microsecond''"

definition Nanosecond :: "'c Registry \<Rightarrow> Datum \<Rightarrow> 'c \<Rightarrow> 'c Run" where
  "Nanosecond = SCALAR_EAGER_UNARY ''nanosecond''"

definition Subsecond :: "'c Registry \<Rightarrow> Datum \<Rightarrow> 'c \<Rightarrow> 'c Run" where
  "Subsecond = SCALAR_EAGER_UNARY ''subsecond''"

subsection \<open>Forwarding\<close>

text \<open>
  A run forwards the call \<open>c\<close> when it invoked the registry exactly once, with \<open>c\<close>,
  and returned what the registry answered, a failure or a success, as it is.
\<close>

definition forwards :: "'c Registry \<Rightarrow> 'c Run \<Rightarrow> 'c Call \<Rightarrow> bool" where
  "forwards reg run c = (run = (reg c, [c]))"

subsection \<open>Example inputs\<close>

text \<open>
  Concrete containers and a registry that knows one function, for instantiating the
  theorems below.
\<close>

definition int32_array :: Datum where
  "int32_array = \<lparr>kind = ARRAY, type = Int32Type, length_datum = 4\<rparr>"

definition int64_chunked_array :: Datum where
  "int64_chunked_array = \<lparr>kind = CHUNKED_ARRAY, type = Int64Type, length_datum = 5\<rparr>"

definition string_array :: Datum where
  "string_array = \<lparr>kind = ARRAY, type = StringType, length_datum = 3\<rparr>"

definition empty_string_array :: Datum where
  "empty_string_array = \<lparr>kind = ARRAY, type = StringType, length_datum = 0\<rparr>"

definition dictionary_array :: Datum where
  "dictionary_array =
     \<lparr>kind = ARRAY, type = DictionaryType Int8Type StringType False, length_datum = 4\<rparr>"

definition nested_dictionary_array :: Datum where
  "nested_dictionary_array =
     \<lparr>kind = ARRAY,
      type = DictionaryType Int8Type (DictionaryType Int16Type StringType False) False,
      length_datum = 4\<rparr>"

definition inner_dictionary_array :: Datum where
  "inner_dictionary_array =
     \<lparr>kind = ARRAY, type = DictionaryType Int16Type StringType False, length_datum = 2\<rparr>"

definition int64_scalar :: Datum where
  "int64_scalar = \<lparr>kind = SCALAR, type = Int64Type, length_datum = 1\<rparr>"

definition boolean_array :: Datum where
  "boolean_array = \<lparr>kind = ARRAY, type = BooleanType, length_datum = 4\<rparr>"

definition set_registry :: "unit Registry" where
  "set_registry c =
     (if fst c = ''is_in'' then Inr boolean_array
      else Inl (Status NotFound (''No function registered with name: '' @ fst c)))"

text \<open>
  A registry whose answer depends on whether an options record comes with the call.
\<close>

definition options_sensitive_registry :: "unit Registry" where
  "options_sensitive_registry c =
     (case fst (snd (snd c)) of
        None \<Rightarrow> Inr int32_array
      | Some options \<Rightarrow> Inl (Status ExecutionError ''unexpected options''))"

section \<open>Properties\<close>

subsection \<open>Auxiliary facts\<close>

lemma DictionaryType_neq_value: "DictionaryType i v ord \<noteq> v"
  by (induction v arbitrary: i ord) auto

lemma ExecSetLookup_cases:
  "ExecSetLookup reg func_name values options ctx =
     (if \<not> is_arraylike (value_set options) then
        (Inl (Status Invalid ''Set lookup value set must be Array or ChunkedArray''), [])
      else if 0 < length_datum (value_set options)
           \<and> \<not> Equals (if type_id (type values) = DICTIONARY then value_type (type values)
                          else type values) (type (value_set options))
      then (Inl (Status Invalid
              (''Array type didn't match type of values set: ''
                 @ ToString (if type_id (type values) = DICTIONARY then value_type (type values)
                             else type values)
                 @ '' vs '' @ ToString (type (value_set options)))), [])
      else CallFunction reg func_name [values] (Some (OfSetLookup options)) ctx)"
  unfolding ExecSetLookup_def Let_def by simp

lemma sublist_in_message: "sublist a (p @ a @ q)" "sublist b (p @ a @ q @ b)"
proof -
  show "sublist a (p @ a @ q)" by (simp add: sublist_def) blast
  have "p @ a @ q @ b = (p @ a @ q) @ b @ []" by simp
  then show "sublist b (p @ a @ q @ b)" unfolding sublist_def by blast
qed

lemma SCALAR_ARITHMETIC_UNARY_run:
  "SCALAR_ARITHMETIC_UNARY base checked reg arg options ctx =
     CallFunction reg (if check_overflow options then checked else base) [arg] None ctx"
  by (simp add: SCALAR_ARITHMETIC_UNARY_def)

lemma SCALAR_ARITHMETIC_BINARY_run:
  "SCALAR_ARITHMETIC_BINARY base checked reg left right options ctx =
     CallFunction reg (if check_overflow options then checked else base) [left, right] None ctx"
  by (simp add: SCALAR_ARITHMETIC_BINARY_def)

lemma called_names_CallFunction: "called_names (CallFunction reg name args options ctx) = [name]"
  by (simp add: called_names_def CallFunction_def)

lemma Compare_run:
  "Compare reg left right options ctx =
     CallFunction reg
       (case op options of
          EQUAL \<Rightarrow> ''equal'' | NOT_EQUAL \<Rightarrow> ''not_equal'' | GREATER \<Rightarrow> ''greater''
        | GREATER_EQUAL \<Rightarrow> ''greater_equal'' | LESS \<Rightarrow> ''less'' | LESS_EQUAL \<Rightarrow> ''less_equal'')
       [left, right] (Some (OfCompare options)) ctx"
  by (simp add: Compare_def)

lemma forwards_CallFunction:
  "forwards reg (CallFunction reg name args options ctx) (name, args, options, ctx)"
  by (simp add: forwards_def CallFunction_def)

lemma forwards_SCALAR_EAGER_UNARY:
  "forwards reg (SCALAR_EAGER_UNARY name reg v ctx) (name, [v], None, ctx)"
  by (simp add: SCALAR_EAGER_UNARY_def forwards_CallFunction)

lemma forwards_SCALAR_EAGER_BINARY:
  "forwards reg (SCALAR_EAGER_BINARY name reg left right ctx) (name, [left, right], None, ctx)"
  by (simp add: SCALAR_EAGER_BINARY_def forwards_CallFunction)

lemma forwards_SCALAR_ARITHMETIC_UNARY:
  "forwards reg (SCALAR_ARITHMETIC_UNARY base checked reg arg options ctx)
     (if check_overflow options then checked else base, [arg], None, ctx)"
  by (simp add: SCALAR_ARITHMETIC_UNARY_run forwards_CallFunction)

lemma forwards_SCALAR_ARITHMETIC_BINARY:
  "forwards reg (SCALAR_ARITHMETIC_BINARY base checked reg left right options ctx)
     (if check_overflow options then checked else base, [left, right], None, ctx)"
  by (simp add: SCALAR_ARITHMETIC_BINARY_run forwards_CallFunction)

lemma forwards_ExecSetLookup:
  "is_arraylike (value_set options) \<Longrightarrow>
   (0 < length_datum (value_set options) \<Longrightarrow>
      Equals (if type_id (type values) = DICTIONARY then value_type (type values)
              else type values) (type (value_set options))) \<Longrightarrow>
   forwards reg (ExecSetLookup reg func_name values options ctx)
     (func_name, [values], Some (OfSetLookup options), ctx)"
  by (auto simp add: ExecSetLookup_cases forwards_CallFunction)

lemma forwards_Compare:
  "forwards reg (Compare reg left right options ctx)
     (case op options of
        EQUAL \<Rightarrow> ''equal'' | NOT_EQUAL \<Rightarrow> ''not_equal'' | GREATER \<Rightarrow> ''greater''
      | GREATER_EQUAL \<Rightarrow> ''greater_equal'' | LESS \<Rightarrow> ''less'' | LESS_EQUAL \<Rightarrow> ''less_equal'',
      [left, right], Some (OfCompare options), ctx)"
  by (simp add: Compare_run forwards_CallFunction)

lemmas arithmetic_defs =
  AbsoluteValue_def Negate_def Add_def Subtract_def Multiply_def Divide_def Power_def

lemmas boolean_defs =
  Invert_def And_def KleeneAnd_def Or_def KleeneOr_def Xor_def AndNot_def KleeneAndNot_def

lemmas validity_defs = IsValid_def IsNull_def IsNan_def

lemmas temporal_defs =
  Year_def Month_def Day_def DayOfWeek_def DayOfYear_def ISOYear_def ISOWeek_def
  ISOCalendar_def Quarter_def Hour_def Minute_def Second_def Millisecond_def
  Microsecond_def Nanosecond_def Subsecond_def

subsection \<open>Set lookup: validation\<close>

text \<open>
  Claim C1. A call of \<open>IsIn\<close> or \<open>IndexIn\<close> whose value set is array-like and has
  positive length, and whose probe has a comparison type (its own type, or the value type
  of its Dictionary type) that does not equal the type of the value set, fails with
  \<open>Invalid\<close>; the message contains the printed names of both types, and the registry
  is not invoked.
\<close>

theorem set_lookup_type_mismatch_is_invalid:
  assumes "is_arraylike (value_set options)"
    and "0 < length_datum (value_set options)"
    and "cmp = (if type_id (type values) = DICTIONARY then value_type (type values)
                else type values)"
    and "\<not> Equals cmp (type (value_set options))"
  shows "\<exists>msg. IsIn reg values options ctx = (Inl (Status Invalid msg), [])
           \<and> IndexIn reg values options ctx = (Inl (Status Invalid msg), [])
           \<and> msg = ''Array type didn't match type of values set: '' @ ToString cmp
                     @ '' vs '' @ ToString (type (value_set options))
           \<and> sublist (ToString cmp) msg
           \<and> sublist (ToString (type (value_set options))) msg"
proof -
  let ?msg = "''Array type didn't match type of values set: '' @ ToString cmp
                @ '' vs '' @ ToString (type (value_set options))"
  have run: "ExecSetLookup reg f values options ctx = (Inl (Status Invalid ?msg), [])" for f
    using assms by (simp add: ExecSetLookup_cases)
  have "sublist (ToString cmp) ?msg" by (rule sublist_in_message(1))
  moreover have "sublist (ToString (type (value_set options))) ?msg"
    by (rule sublist_in_message(2))
  ultimately show ?thesis
    unfolding IsIn_def IndexIn_def run by blast
qed

theorem set_lookup_type_mismatch_is_invalid_witness:
  "is_arraylike (value_set \<lparr>value_set = int64_chunked_array, skip_nulls_lookup = False\<rparr>)
   \<and> 0 < length_datum (value_set \<lparr>value_set = int64_chunked_array, skip_nulls_lookup = False\<rparr>)
   \<and> \<not> Equals Int32Type (type int64_chunked_array)
   \<and> (\<exists>msg. IsIn set_registry int32_array
               \<lparr>value_set = int64_chunked_array, skip_nulls_lookup = False\<rparr> ()
             = (Inl (Status Invalid msg), [])
          \<and> IndexIn set_registry int32_array
               \<lparr>value_set = int64_chunked_array, skip_nulls_lookup = False\<rparr> ()
             = (Inl (Status Invalid msg), [])
          \<and> msg = ''Array type didn't match type of values set: int32 vs int64''
          \<and> sublist ''int32'' msg \<and> sublist ''int64'' msg)"
  using set_lookup_type_mismatch_is_invalid
    [of "\<lparr>value_set = int64_chunked_array, skip_nulls_lookup = False\<rparr>" Int32Type int32_array
        set_registry "()"]
  by (simp add: is_arraylike_def Equals_def int64_chunked_array_def int32_array_def)

text \<open>
  Claim C2. When the value set is array-like and has length zero, the type check is
  skipped: whatever the type of the probe, \<open>IsIn\<close> and \<open>IndexIn\<close> raise no
  \<open>Invalid\<close> of their own and hand the call to the registry.
\<close>

theorem set_lookup_empty_value_set_is_delegated:
  assumes "is_arraylike (value_set options)"
    and "length_datum (value_set options) = 0"
  shows "IsIn reg values options ctx
           = CallFunction reg ''is_in'' [values] (Some (OfSetLookup options)) ctx
         \<and> IndexIn reg values options ctx
           = CallFunction reg ''index_in'' [values] (Some (OfSetLookup options)) ctx"
  using assms by (simp add: IsIn_def IndexIn_def ExecSetLookup_cases)

theorem set_lookup_empty_value_set_is_delegated_witness:
  "is_arraylike (value_set \<lparr>value_set = empty_string_array, skip_nulls_lookup = False\<rparr>)
   \<and> length_datum (value_set \<lparr>value_set = empty_string_array, skip_nulls_lookup = False\<rparr>) = 0
   \<and> type int32_array \<noteq> type empty_string_array
   \<and> IsIn set_registry int32_array
        \<lparr>value_set = empty_string_array, skip_nulls_lookup = False\<rparr> ()
      = (Inr boolean_array,
         [(''is_in'', [int32_array],
           Some (OfSetLookup \<lparr>value_set = empty_string_array, skip_nulls_lookup = False\<rparr>), ())])
   \<and> IndexIn set_registry int32_array
        \<lparr>value_set = empty_string_array, skip_nulls_lookup = False\<rparr> ()
      = (Inl (Status NotFound ''No function registered with name: index_in''),
         [(''index_in'', [int32_array],
           Some (OfSetLookup \<lparr>value_set = empty_string_array, skip_nulls_lookup = False\<rparr>), ())])"
  using set_lookup_empty_value_set_is_delegated
    [of "\<lparr>value_set = empty_string_array, skip_nulls_lookup = False\<rparr>" set_registry
        int32_array "()"]
  by (simp add: is_arraylike_def empty_string_array_def int32_array_def CallFunction_def
      set_registry_def)

text \<open>
  Claim C6. When the value set is not array-like, \<open>IsIn\<close> and \<open>IndexIn\<close> fail with
  \<open>Invalid\<close> whatever the types and the length of the value set are, and the registry
  is not invoked.
\<close>

theorem set_lookup_value_set_not_arraylike_is_invalid:
  assumes "\<not> is_arraylike (value_set options)"
  shows "IsIn reg values options ctx
           = (Inl (Status Invalid ''Set lookup value set must be Array or ChunkedArray''), [])
         \<and> IndexIn reg values options ctx
           = (Inl (Status Invalid ''Set lookup value set must be Array or ChunkedArray''), [])"
  using assms by (simp add: IsIn_def IndexIn_def ExecSetLookup_cases)

theorem set_lookup_value_set_not_arraylike_is_invalid_witness:
  "\<not> is_arraylike (value_set \<lparr>value_set = int64_scalar, skip_nulls_lookup = False\<rparr>)
   \<and> type int64_chunked_array = type int64_scalar
   \<and> IsIn set_registry int64_chunked_array
        \<lparr>value_set = int64_scalar, skip_nulls_lookup = False\<rparr> ()
      = (Inl (Status Invalid ''Set lookup value set must be Array or ChunkedArray''), [])
   \<and> IndexIn set_registry int64_chunked_array
        \<lparr>value_set = int64_scalar, skip_nulls_lookup = False\<rparr> ()
      = (Inl (Status Invalid ''Set lookup value set must be Array or ChunkedArray''), [])"
  using set_lookup_value_set_not_arraylike_is_invalid
    [of "\<lparr>value_set = int64_scalar, skip_nulls_lookup = False\<rparr>" set_registry
        int64_chunked_array "()"]
  by (simp add: is_arraylike_def int64_scalar_def int64_chunked_array_def)

text \<open>
  Claim C5. Against an array-like value set of positive length, a probe of type
  \<open>DictionaryType i v ord\<close> is checked by comparing \<open>v\<close>, the type of its decoded
  values, with the type of the value set: neither the Dictionary type nor the index type
  \<open>i\<close> takes part. A probe whose type is not a Dictionary is checked by its own type.
\<close>

theorem set_lookup_compares_dictionary_value_type:
  assumes "is_arraylike (value_set options)"
    and "0 < length_datum (value_set options)"
  shows "(type values = DictionaryType i v ord \<longrightarrow>
            IsIn reg values options ctx =
              (if Equals v (type (value_set options))
               then CallFunction reg ''is_in'' [values] (Some (OfSetLookup options)) ctx
               else (Inl (Status Invalid
                       (''Array type didn't match type of values set: '' @ ToString v
                          @ '' vs '' @ ToString (type (value_set options)))), []))
          \<and> IndexIn reg values options ctx =
              (if Equals v (type (value_set options))
               then CallFunction reg ''index_in'' [values] (Some (OfSetLookup options)) ctx
               else (Inl (Status Invalid
                       (''Array type didn't match type of values set: '' @ ToString v
                          @ '' vs '' @ ToString (type (value_set options)))), [])))
         \<and> (type_id (type values) \<noteq> DICTIONARY \<longrightarrow>
            IsIn reg values options ctx =
              (if Equals (type values) (type (value_set options))
               then CallFunction reg ''is_in'' [values] (Some (OfSetLookup options)) ctx
               else (Inl (Status Invalid
                       (''Array type didn't match type of values set: ''
                          @ ToString (type values)
                          @ '' vs '' @ ToString (type (value_set options)))), []))
          \<and> IndexIn reg values options ctx =
              (if Equals (type values) (type (value_set options))
               then CallFunction reg ''index_in'' [values] (Some (OfSetLookup options)) ctx
               else (Inl (Status Invalid
                       (''Array type didn't match type of values set: ''
                          @ ToString (type values)
                          @ '' vs '' @ ToString (type (value_set options)))), [])))"
  using assms by (simp add: IsIn_def IndexIn_def ExecSetLookup_cases)

theorem set_lookup_compares_dictionary_value_type_witness:
  "is_arraylike (value_set \<lparr>value_set = string_array, skip_nulls_lookup = False\<rparr>)
   \<and> 0 < length_datum (value_set \<lparr>value_set = string_array, skip_nulls_lookup = False\<rparr>)
   \<and> type dictionary_array = DictionaryType Int8Type StringType False
   \<and> IsIn set_registry dictionary_array
        \<lparr>value_set = string_array, skip_nulls_lookup = False\<rparr> ()
      = (Inr boolean_array,
         [(''is_in'', [dictionary_array],
           Some (OfSetLookup \<lparr>value_set = string_array, skip_nulls_lookup = False\<rparr>), ())])
   \<and> type_id (type string_array) \<noteq> DICTIONARY
   \<and> IsIn set_registry string_array
        \<lparr>value_set = string_array, skip_nulls_lookup = False\<rparr> ()
      = (Inr boolean_array,
         [(''is_in'', [string_array],
           Some (OfSetLookup \<lparr>value_set = string_array, skip_nulls_lookup = False\<rparr>), ())])"
  using set_lookup_compares_dictionary_value_type
    [of "\<lparr>value_set = string_array, skip_nulls_lookup = False\<rparr>" dictionary_array
        Int8Type StringType False set_registry "()"]
    set_lookup_compares_dictionary_value_type
    [of "\<lparr>value_set = string_array, skip_nulls_lookup = False\<rparr>" string_array
        Int8Type StringType False set_registry "()"]
  by (simp add: is_arraylike_def Equals_def string_array_def dictionary_array_def
      CallFunction_def set_registry_def)

text \<open>
  Claim C10. The unwrapping is one level deep. For a probe whose type is a Dictionary of
  Dictionary values, the type compared with the value set is the inner Dictionary type
  itself: a value set of that type passes, every other type fails, and in particular a
  value set of the innermost value type fails.
\<close>

theorem set_lookup_unwraps_one_dictionary_level:
  assumes "is_arraylike (value_set options)"
    and "0 < length_datum (value_set options)"
    and "type values = DictionaryType i (DictionaryType i' v' ord') ord"
  shows "(type (value_set options) = DictionaryType i' v' ord' \<longrightarrow>
            IsIn reg values options ctx
              = CallFunction reg ''is_in'' [values] (Some (OfSetLookup options)) ctx
          \<and> IndexIn reg values options ctx
              = CallFunction reg ''index_in'' [values] (Some (OfSetLookup options)) ctx)
         \<and> (type (value_set options) \<noteq> DictionaryType i' v' ord' \<longrightarrow>
            IsIn reg values options ctx
              = (Inl (Status Invalid
                   (''Array type didn't match type of values set: ''
                      @ ToString (DictionaryType i' v' ord')
                      @ '' vs '' @ ToString (type (value_set options)))), [])
          \<and> IndexIn reg values options ctx
              = (Inl (Status Invalid
                   (''Array type didn't match type of values set: ''
                      @ ToString (DictionaryType i' v' ord')
                      @ '' vs '' @ ToString (type (value_set options)))), []))
         \<and> (type (value_set options) = v' \<longrightarrow>
            IsIn reg values options ctx
              = (Inl (Status Invalid
                   (''Array type didn't match type of values set: ''
                      @ ToString (DictionaryType i' v' ord') @ '' vs '' @ ToString v')), [])
          \<and> IndexIn reg values options ctx
              = (Inl (Status Invalid
                   (''Array type didn't match type of values set: ''
                      @ ToString (DictionaryType i' v' ord') @ '' vs '' @ ToString v')), []))"
  using assms DictionaryType_neq_value [of i' v' ord']
  by (simp add: IsIn_def IndexIn_def ExecSetLookup_cases Equals_def)

theorem set_lookup_unwraps_one_dictionary_level_witness:
  "is_arraylike (value_set \<lparr>value_set = inner_dictionary_array, skip_nulls_lookup = False\<rparr>)
   \<and> 0 < length_datum
           (value_set \<lparr>value_set = inner_dictionary_array, skip_nulls_lookup = False\<rparr>)
   \<and> type nested_dictionary_array
       = DictionaryType Int8Type (DictionaryType Int16Type StringType False) False
   \<and> IsIn set_registry nested_dictionary_array
        \<lparr>value_set = inner_dictionary_array, skip_nulls_lookup = False\<rparr> ()
      = (Inr boolean_array,
         [(''is_in'', [nested_dictionary_array],
           Some (OfSetLookup \<lparr>value_set = inner_dictionary_array, skip_nulls_lookup = False\<rparr>),
           ())])
   \<and> IsIn set_registry nested_dictionary_array
        \<lparr>value_set = string_array, skip_nulls_lookup = False\<rparr> ()
      = (Inl (Status Invalid
           ''Array type didn't match type of values set: dictionary<values=string, indices=int16, ordered=0> vs string''),
         [])"
  using set_lookup_unwraps_one_dictionary_level
    [of "\<lparr>value_set = inner_dictionary_array, skip_nulls_lookup = False\<rparr>"
        nested_dictionary_array Int8Type Int16Type StringType False False set_registry "()"]
    set_lookup_unwraps_one_dictionary_level
    [of "\<lparr>value_set = string_array, skip_nulls_lookup = False\<rparr>"
        nested_dictionary_array Int8Type Int16Type StringType False False set_registry "()"]
  by (simp add: is_arraylike_def string_array_def inner_dictionary_array_def
      nested_dictionary_array_def CallFunction_def set_registry_def)

subsection \<open>Set lookup: the overloads\<close>

text \<open>
  Claim C7. The overloads of \<open>IsIn\<close> and \<open>IndexIn\<close> that take the value set
  itself behave as the overloads that take options do on the options record built from
  that value set with its other field at the default: the same result, the same failure
  and the same invocations of the registry.
\<close>

theorem set_lookup_value_set_overloads_agree:
  "IsIn_value_set reg values vs ctx
     = IsIn reg values \<lparr>value_set = vs, skip_nulls_lookup = False\<rparr> ctx
   \<and> IndexIn_value_set reg values vs ctx
     = IndexIn reg values \<lparr>value_set = vs, skip_nulls_lookup = False\<rparr> ctx"
  by (simp add: IsIn_value_set_def IndexIn_value_set_def IsIn_def IndexIn_def
      SetLookupOptions_of_def)

text \<open>
  Claim C8. \<open>IsIn\<close> and \<open>IndexIn\<close> validate alike. On the same probe and options,
  whatever the registries and contexts, either both fail with the same \<open>Invalid\<close>
  status and invoke nothing, or both hand the same argument and options to the registry,
  the one under the name \<open>is_in\<close> and the other under \<open>index_in\<close>.
\<close>

theorem is_in_index_in_validate_alike:
  "(\<exists>msg. IsIn reg values options ctx = (Inl (Status Invalid msg), [])
         \<and> IndexIn reg' values options ctx' = (Inl (Status Invalid msg), []))
   \<or> (IsIn reg values options ctx
         = CallFunction reg ''is_in'' [values] (Some (OfSetLookup options)) ctx
       \<and> IndexIn reg' values options ctx'
         = CallFunction reg' ''index_in'' [values] (Some (OfSetLookup options)) ctx')"
  by (simp add: IsIn_def IndexIn_def ExecSetLookup_cases)

subsection \<open>Name resolution\<close>

text \<open>
  Claim C3. Each of \<open>AbsoluteValue\<close>, \<open>Negate\<close>, \<open>Add\<close>, \<open>Subtract\<close>,
  \<open>Multiply\<close>, \<open>Divide\<close> and \<open>Power\<close> invokes exactly one registry name for every
  \<open>ArithmeticOptions\<close>: the base name suffixed with \<open>_checked\<close> when
  \<open>check_overflow\<close> is set, and the base name otherwise. The checked name is resolved
  if and only if \<open>check_overflow\<close> is set; resolving the name never fails.
\<close>

theorem arithmetic_resolves_checked_name_iff_check_overflow:
  "called_names (AbsoluteValue reg arg options ctx)
     = [if check_overflow options then ''abs'' @ ''_checked'' else ''abs'']
   \<and> called_names (Negate reg arg options ctx)
     = [if check_overflow options then ''negate'' @ ''_checked'' else ''negate'']
   \<and> called_names (Add reg left right options ctx)
     = [if check_overflow options then ''add'' @ ''_checked'' else ''add'']
   \<and> called_names (Subtract reg left right options ctx)
     = [if check_overflow options then ''subtract'' @ ''_checked'' else ''subtract'']
   \<and> called_names (Multiply reg left right options ctx)
     = [if check_overflow options then ''multiply'' @ ''_checked'' else ''multiply'']
   \<and> called_names (Divide reg left right options ctx)
     = [if check_overflow options then ''divide'' @ ''_checked'' else ''divide'']
   \<and> called_names (Power reg left right options ctx)
     = [if check_overflow options then ''power'' @ ''_checked'' else ''power'']
   \<and> (called_names (AbsoluteValue reg arg options ctx) = [''abs_checked''])
       = check_overflow options
   \<and> (called_names (Negate reg arg options ctx) = [''negate_checked''])
       = check_overflow options
   \<and> (called_names (Add reg left right options ctx) = [''add_checked''])
       = check_overflow options
   \<and> (called_names (Subtract reg left right options ctx) = [''subtract_checked''])
       = check_overflow options
   \<and> (called_names (Multiply reg left right options ctx) = [''multiply_checked''])
       = check_overflow options
   \<and> (called_names (Divide reg left right options ctx) = [''divide_checked''])
       = check_overflow options
   \<and> (called_names (Power reg left right options ctx) = [''power_checked''])
       = check_overflow options"
  by (simp add: arithmetic_defs SCALAR_ARITHMETIC_UNARY_run SCALAR_ARITHMETIC_BINARY_run
      called_names_CallFunction)

theorem arithmetic_resolves_checked_name_iff_check_overflow_witness:
  "called_names (Add set_registry int32_array int32_array \<lparr>check_overflow = True\<rparr> ())
     = [''add_checked'']
   \<and> called_names (Add set_registry int32_array int32_array \<lparr>check_overflow = False\<rparr> ())
     = [''add'']
   \<and> called_names (Negate set_registry int32_array \<lparr>check_overflow = True\<rparr> ())
     = [''negate_checked'']"
  using arithmetic_resolves_checked_name_iff_check_overflow
    [of set_registry int32_array "\<lparr>check_overflow = True\<rparr>" "()" int32_array int32_array]
    arithmetic_resolves_checked_name_iff_check_overflow
    [of set_registry int32_array "\<lparr>check_overflow = False\<rparr>" "()" int32_array int32_array]
  by simp

text \<open>
  Claim C4. \<open>Compare\<close> resolves each of the six operators to its canonical name. The
  mapping from operators to names is total and injective, and no operator resolves to the
  empty name.
\<close>

theorem compare_resolves_canonical_names:
  "called_names (Compare reg left right \<lparr>op = EQUAL\<rparr> ctx) = [''equal'']
   \<and> called_names (Compare reg left right \<lparr>op = NOT_EQUAL\<rparr> ctx) = [''not_equal'']
   \<and> called_names (Compare reg left right \<lparr>op = GREATER\<rparr> ctx) = [''greater'']
   \<and> called_names (Compare reg left right \<lparr>op = GREATER_EQUAL\<rparr> ctx) = [''greater_equal'']
   \<and> called_names (Compare reg left right \<lparr>op = LESS\<rparr> ctx) = [''less'']
   \<and> called_names (Compare reg left right \<lparr>op = LESS_EQUAL\<rparr> ctx) = [''less_equal'']
   \<and> inj (\<lambda>operator. called_names (Compare reg left right \<lparr>op = operator\<rparr> ctx))
   \<and> called_names (Compare reg left right \<lparr>op = operator\<rparr> ctx) \<noteq> [[]]
   \<and> length (called_names (Compare reg left right \<lparr>op = operator\<rparr> ctx)) = 1"
proof -
  have names: "called_names (Compare reg left right \<lparr>op = x\<rparr> ctx) =
      [case x of
         EQUAL \<Rightarrow> ''equal'' | NOT_EQUAL \<Rightarrow> ''not_equal'' | GREATER \<Rightarrow> ''greater''
       | GREATER_EQUAL \<Rightarrow> ''greater_equal'' | LESS \<Rightarrow> ''less'' | LESS_EQUAL \<Rightarrow> ''less_equal'']"
    for x
    by (simp add: Compare_run called_names_CallFunction)
  have "inj (\<lambda>operator. called_names (Compare reg left right \<lparr>op = operator\<rparr> ctx))"
    unfolding names
  proof (rule injI)
    fix x y :: CompareOperator
    assume "[case x of
         EQUAL \<Rightarrow> ''equal'' | NOT_EQUAL \<Rightarrow> ''not_equal'' | GREATER \<Rightarrow> ''greater''
       | GREATER_EQUAL \<Rightarrow> ''greater_equal'' | LESS \<Rightarrow> ''less'' | LESS_EQUAL \<Rightarrow> ''less_equal'']
      = [case y of
         EQUAL \<Rightarrow> ''equal'' | NOT_EQUAL \<Rightarrow> ''not_equal'' | GREATER \<Rightarrow> ''greater''
       | GREATER_EQUAL \<Rightarrow> ''greater_equal'' | LESS \<Rightarrow> ''less'' | LESS_EQUAL \<Rightarrow> ''less_equal'']"
    then show "x = y" by (cases x; cases y) simp_all
  qed
  moreover have "called_names (Compare reg left right \<lparr>op = operator\<rparr> ctx) \<noteq> [[]]"
    unfolding names by (cases operator) simp_all
  ultimately show ?thesis by (simp add: names)
qed

theorem compare_resolves_canonical_names_witness:
  "called_names (Compare set_registry int32_array int32_array \<lparr>op = GREATER_EQUAL\<rparr> ())
     = [''greater_equal'']
   \<and> called_names (Compare set_registry int32_array int32_array \<lparr>op = GREATER\<rparr> ())
     \<noteq> called_names (Compare set_registry int32_array int32_array \<lparr>op = GREATER_EQUAL\<rparr> ())"
  using compare_resolves_canonical_names [of set_registry int32_array int32_array "()"]
  by simp

subsection \<open>Propagation of the registry answer\<close>

text \<open>
  Claim C9, as amended. Every entry point, once its own validation (which only \<open>IsIn\<close>
  and \<open>IndexIn\<close> have) has passed, makes exactly one call to the registry and returns
  the answer unchanged, be it a failure or a success. The call carries the resolved name,
  the given arguments and the options that the entry point passes on: its options record
  for the element-wise aggregates, the set lookups and \<open>Compare\<close>, and no options for
  every other entry point. The arithmetic entry points use their \<open>ArithmeticOptions\<close>
  to choose the name only and do not pass them on.
\<close>

theorem entry_points_return_the_registry_answer:
  "forwards reg (AbsoluteValue reg v ao ctx)
     (if check_overflow ao then ''abs_checked'' else ''abs'', [v], None, ctx)
   \<and> forwards reg (Negate reg v ao ctx)
     (if check_overflow ao then ''negate_checked'' else ''negate'', [v], None, ctx)
   \<and> forwards reg (Add reg l r ao ctx)
     (if check_overflow ao then ''add_checked'' else ''add'', [l, r], None, ctx)
   \<and> forwards reg (Subtract reg l r ao ctx)
     (if check_overflow ao then ''subtract_checked'' else ''subtract'', [l, r], None, ctx)
   \<and> forwards reg (Multiply reg l r ao ctx)
     (if check_overflow ao then ''multiply_checked'' else ''multiply'', [l, r], None, ctx)
   \<and> forwards reg (Divide reg l r ao ctx)
     (if check_overflow ao then ''divide_checked'' else ''divide'', [l, r], None, ctx)
   \<and> forwards reg (Power reg l r ao ctx)
     (if check_overflow ao then ''power_checked'' else ''power'', [l, r], None, ctx)
   \<and> forwards reg (ElementWiseMax reg args eo ctx)
     (''element_wise_max'', args, Some (OfElementWiseAggregate eo), ctx)
   \<and> forwards reg (ElementWiseMin reg args eo ctx)
     (''element_wise_min'', args, Some (OfElementWiseAggregate eo), ctx)
   \<and> (is_arraylike (value_set so)
        \<and> (0 < length_datum (value_set so) \<longrightarrow>
             Equals (if type_id (type v) = DICTIONARY then value_type (type v) else type v)
               (type (value_set so))) \<longrightarrow>
        forwards reg (IsIn reg v so ctx) (''is_in'', [v], Some (OfSetLookup so), ctx)
        \<and> forwards reg (IndexIn reg v so ctx) (''index_in'', [v], Some (OfSetLookup so), ctx))
   \<and> (is_arraylike vs
        \<and> (0 < length_datum vs \<longrightarrow>
             Equals (if type_id (type v) = DICTIONARY then value_type (type v) else type v)
               (type vs)) \<longrightarrow>
        forwards reg (IsIn_value_set reg v vs ctx)
          (''is_in'', [v], Some (OfSetLookup (SetLookupOptions_of vs)), ctx)
        \<and> forwards reg (IndexIn_value_set reg v vs ctx)
          (''index_in'', [v], Some (OfSetLookup (SetLookupOptions_of vs)), ctx))
   \<and> forwards reg (Invert reg v ctx) (''invert'', [v], None, ctx)
   \<and> forwards reg (And reg l r ctx) (''and'', [l, r], None, ctx)
   \<and> forwards reg (KleeneAnd reg l r ctx) (''and_kleene'', [l, r], None, ctx)
   \<and> forwards reg (Or reg l r ctx) (''or'', [l, r], None, ctx)
   \<and> forwards reg (KleeneOr reg l r ctx) (''or_kleene'', [l, r], None, ctx)
   \<and> forwards reg (Xor reg l r ctx) (''xor'', [l, r], None, ctx)
   \<and> forwards reg (AndNot reg l r ctx) (''and_not'', [l, r], None, ctx)
   \<and> forwards reg (KleeneAndNot reg l r ctx) (''and_not_kleene'', [l, r], None, ctx)
   \<and> forwards reg (Compare reg l r co ctx)
     (case op co of
        EQUAL \<Rightarrow> ''equal'' | NOT_EQUAL \<Rightarrow> ''not_equal'' | GREATER \<Rightarrow> ''greater''
      | GREATER_EQUAL \<Rightarrow> ''greater_equal'' | LESS \<Rightarrow> ''less'' | LESS_EQUAL \<Rightarrow> ''less_equal'',
      [l, r], Some (OfCompare co), ctx)
   \<and> forwards reg (IsValid reg v ctx) (''is_valid'', [v], None, ctx)
   \<and> forwards reg (IsNull reg v ctx) (''is_null'', [v], None, ctx)
   \<and> forwards reg (IsNan reg v ctx) (''is_nan'', [v], None, ctx)
   \<and> forwards reg (FillNull reg l r ctx) (''fill_null'', [l, r], None, ctx)
   \<and> forwards reg (IfElse reg v l r ctx) (''if_else'', [v, l, r], None, ctx)
   \<and> forwards reg (Year reg v ctx) (''year'', [v], None, ctx)
   \<and> forwards reg (Month reg v ctx) (''month'', [v], None, ctx)
   \<and> forwards reg (Day reg v ctx) (''day'', [v], None, ctx)
   \<and> forwards reg (DayOfWeek reg v ctx) (''day_of_week'', [v], None, ctx)
   \<and> forwards reg (DayOfYear reg v ctx) (''day_of_year'', [v], None, ctx)
   \<and> forwards reg (ISOYear reg v ctx) (''iso_year'', [v], None, ctx)
   \<and> forwards reg (ISOWeek reg v ctx) (''iso_week'', [v], None, ctx)
   \<and> forwards reg (ISOCalendar reg v ctx) (''iso_calendar'', [v], None, ctx)
   \<and> forwards reg (Quarter reg v ctx) (''quarter'', [v], None, ctx)
   \<and> forwards reg (Hour reg v ctx) (''hour'', [v], None, ctx)
   \<and> forwards reg (Minute reg v ctx) (''minute'', [v], None, ctx)
   \<and> forwards reg (Second reg v ctx) (''second'', [v], None, ctx)
   \<and> forwards reg (Millisecond reg v ctx) (''millisecond'', [v], None, ctx)
   \<and> forwards reg (Microsecond reg v ctx) (''microsecond'', [v], None, ctx)
   \<and> forwards reg (Nanosecond reg v ctx) (''nanosecond'', [v], None, ctx)
   \<and> forwards reg (Subsecond reg v ctx) (''subsecond'', [v], None, ctx)"
proof -
  have arithmetic:
    "forwards reg (AbsoluteValue reg v ao ctx)
       (if check_overflow ao then ''abs_checked'' else ''abs'', [v], None, ctx)"
    "forwards reg (Negate reg v ao ctx)
       (if check_overflow ao then ''negate_checked'' else ''negate'', [v], None, ctx)"
    "forwards reg (Add reg l r ao ctx)
       (if check_overflow ao then ''add_checked'' else ''add'', [l, r], None, ctx)"
    "forwards reg (Subtract reg l r ao ctx)
       (if check_overflow ao then ''subtract_checked'' else ''subtract'', [l, r], None, ctx)"
    "forwards reg (Multiply reg l r ao ctx)
       (if check_overflow ao then ''multiply_checked'' else ''multiply'', [l, r], None, ctx)"
    "forwards reg (Divide reg l r ao ctx)
       (if check_overflow ao then ''divide_checked'' else ''divide'', [l, r], None, ctx)"
    "forwards reg (Power reg l r ao ctx)
       (if check_overflow ao then ''power_checked'' else ''power'', [l, r], None, ctx)"
    unfolding arithmetic_defs
    by (rule forwards_SCALAR_ARITHMETIC_UNARY forwards_SCALAR_ARITHMETIC_BINARY)+
  have aggregate:
    "forwards reg (ElementWiseMax reg args eo ctx)
       (''element_wise_max'', args, Some (OfElementWiseAggregate eo), ctx)"
    "forwards reg (ElementWiseMin reg args eo ctx)
       (''element_wise_min'', args, Some (OfElementWiseAggregate eo), ctx)"
    unfolding ElementWiseMax_def ElementWiseMin_def by (rule forwards_CallFunction)+
  have lookup:
    "is_arraylike (value_set so)
       \<and> (0 < length_datum (value_set so) \<longrightarrow>
            Equals (if type_id (type v) = DICTIONARY then value_type (type v) else type v)
              (type (value_set so))) \<longrightarrow>
     forwards reg (IsIn reg v so ctx) (''is_in'', [v], Some (OfSetLookup so), ctx)
     \<and> forwards reg (IndexIn reg v so ctx) (''index_in'', [v], Some (OfSetLookup so), ctx)"
    unfolding IsIn_def IndexIn_def by (simp add: forwards_ExecSetLookup)
  have lookup_value_set:
    "is_arraylike vs
       \<and> (0 < length_datum vs \<longrightarrow>
            Equals (if type_id (type v) = DICTIONARY then value_type (type v) else type v)
              (type vs)) \<longrightarrow>
     forwards reg (IsIn_value_set reg v vs ctx)
       (''is_in'', [v], Some (OfSetLookup (SetLookupOptions_of vs)), ctx)
     \<and> forwards reg (IndexIn_value_set reg v vs ctx)
       (''index_in'', [v], Some (OfSetLookup (SetLookupOptions_of vs)), ctx)"
    unfolding IsIn_value_set_def IndexIn_value_set_def
    using forwards_ExecSetLookup [of "SetLookupOptions_of vs" v reg]
    by (simp add: SetLookupOptions_of_def)
  have boolean:
    "forwards reg (Invert reg v ctx) (''invert'', [v], None, ctx)"
    "forwards reg (And reg l r ctx) (''and'', [l, r], None, ctx)"
    "forwards reg (KleeneAnd reg l r ctx) (''and_kleene'', [l, r], None, ctx)"
    "forwards reg (Or reg l r ctx) (''or'', [l, r], None, ctx)"
    "forwards reg (KleeneOr reg l r ctx) (''or_kleene'', [l, r], None, ctx)"
    "forwards reg (Xor reg l r ctx) (''xor'', [l, r], None, ctx)"
    "forwards reg (AndNot reg l r ctx) (''and_not'', [l, r], None, ctx)"
    "forwards reg (KleeneAndNot reg l r ctx) (''and_not_kleene'', [l, r], None, ctx)"
    unfolding boolean_defs
    by (rule forwards_SCALAR_EAGER_UNARY forwards_SCALAR_EAGER_BINARY)+
  have validity:
    "forwards reg (IsValid reg v ctx) (''is_valid'', [v], None, ctx)"
    "forwards reg (IsNull reg v ctx) (''is_null'', [v], None, ctx)"
    "forwards reg (IsNan reg v ctx) (''is_nan'', [v], None, ctx)"
    "forwards reg (FillNull reg l r ctx) (''fill_null'', [l, r], None, ctx)"
    "forwards reg (IfElse reg v l r ctx) (''if_else'', [v, l, r], None, ctx)"
    unfolding validity_defs FillNull_def IfElse_def
    by (rule forwards_SCALAR_EAGER_UNARY forwards_CallFunction)+
  have temporal:
    "forwards reg (Year reg v ctx) (''year'', [v], None, ctx)"
    "forwards reg (Month reg v ctx) (''month'', [v], None, ctx)"
    "forwards reg (Day reg v ctx) (''day'', [v], None, ctx)"
    "forwards reg (DayOfWeek reg v ctx) (''day_of_week'', [v], None, ctx)"
    "forwards reg (DayOfYear reg v ctx) (''day_of_year'', [v], None, ctx)"
    "forwards reg (ISOYear reg v ctx) (''iso_year'', [v], None, ctx)"
    "forwards reg (ISOWeek reg v ctx) (''iso_week'', [v], None, ctx)"
    "forwards reg (ISOCalendar reg v ctx) (''iso_calendar'', [v], None, ctx)"
    "forwards reg (Quarter reg v ctx) (''quarter'', [v], None, ctx)"
    "forwards reg (Hour reg v ctx) (''hour'', [v], None, ctx)"
    "forwards reg (Minute reg v ctx) (''minute'', [v], None, ctx)"
    "forwards reg (Second reg v ctx) (''second'', [v], None, ctx)"
    "forwards reg (Millisecond reg v ctx) (''millisecond'', [v], None, ctx)"
    "forwards reg (Microsecond reg v ctx) (''microsecond'', [v], None, ctx)"
    "forwards reg (Nanosecond reg v ctx) (''nanosecond'', [v], None, ctx)"
    "forwards reg (Subsecond reg v ctx) (''subsecond'', [v], None, ctx)"
    unfolding temporal_defs by (rule forwards_SCALAR_EAGER_UNARY)+
  show ?thesis
    by (intro conjI arithmetic aggregate lookup lookup_value_set boolean forwards_Compare
        validity temporal)
qed

theorem entry_points_return_the_registry_answer_witness:
  "is_arraylike (value_set \<lparr>value_set = string_array, skip_nulls_lookup = False\<rparr>)
   \<and> Equals (value_type (type dictionary_array)) (type string_array)
   \<and> IsIn set_registry dictionary_array
        \<lparr>value_set = string_array, skip_nulls_lookup = False\<rparr> ()
      = (Inr boolean_array,
         [(''is_in'', [dictionary_array],
           Some (OfSetLookup \<lparr>value_set = string_array, skip_nulls_lookup = False\<rparr>), ())])
   \<and> IndexIn set_registry dictionary_array
        \<lparr>value_set = string_array, skip_nulls_lookup = False\<rparr> ()
      = (Inl (Status NotFound ''No function registered with name: index_in''),
         [(''index_in'', [dictionary_array],
           Some (OfSetLookup \<lparr>value_set = string_array, skip_nulls_lookup = False\<rparr>), ())])
   \<and> Add set_registry int32_array int32_array \<lparr>check_overflow = True\<rparr> ()
      = (Inl (Status NotFound ''No function registered with name: add_checked''),
         [(''add_checked'', [int32_array, int32_array], None, ())])"
  using entry_points_return_the_registry_answer
    [where reg = set_registry and v = dictionary_array and ctx = "()"
       and so = "\<lparr>value_set = string_array, skip_nulls_lookup = False\<rparr>"
       and l = int32_array and r = int32_array and ao = "\<lparr>check_overflow = True\<rparr>"
       and vs = string_array]
  by (simp add: forwards_def is_arraylike_def Equals_def string_array_def dictionary_array_def
      set_registry_def)

text \<open>
  The claim as first stated has the registry answer for the options bound to the entry
  point. That fails for the arithmetic entry points: \<open>Add\<close> with \<open>check_overflow\<close> set
  calls \<open>add_checked\<close> without options, so under a registry that tells the two calls
  apart its result is not the answer for the call that carries the \<open>ArithmeticOptions\<close>.
\<close>

theorem arithmetic_options_are_not_forwarded_counterexample:
  "\<not> forwards options_sensitive_registry
       (Add options_sensitive_registry int32_array int32_array \<lparr>check_overflow = True\<rparr> ())
       (''add_checked'', [int32_array, int32_array],
        Some (OfArithmetic \<lparr>check_overflow = True\<rparr>), ())
   \<and> fst (Add options_sensitive_registry int32_array int32_array \<lparr>check_overflow = True\<rparr> ())
       = Inr int32_array
   \<and> options_sensitive_registry
         (''add_checked'', [int32_array, int32_array],
          Some (OfArithmetic \<lparr>check_overflow = True\<rparr>), ())
       = Inl (Status ExecutionError ''unexpected options'')"
  by (simp add: forwards_def Add_def SCALAR_ARITHMETIC_BINARY_def CallFunction_def
      options_sensitive_registry_def)

end
